theory Spec2Isabelle
  imports Main "HOL-Library.Word" "HOL-Library.Multiset"
begin

unbundle bit_operations_syntax

section \<open>The JZ4740 PWM driver (drivers/pwm/pwm-jz4740.c)\<close>

text \<open>
  The driver runs on the 32-bit MIPS SoCs of the JZ47xx family, so \<open>unsigned long\<close>,
  \<open>unsigned int\<close>, \<open>int\<close> and pointers are 32 bits wide and \<open>unsigned long long\<close>
  is 64 bits wide. A C \<open>int\<close> is kept as a 32-bit word and read with \<open>sint\<close>; its
  conversion to a wider unsigned type is \<open>scast\<close> (sign extension), the conversion
  of an unsigned value is \<open>ucast\<close>.
\<close>

type_synonym u32 = "32 word"
type_synonym ulong = "32 word"
type_synonym s32 = "32 word"
type_synonym u64 = "64 word"

subsection \<open>Errors\<close>

text \<open>
  \<open>jz4740_pwm_config\<close> returns \<open>-EINVAL\<close> when no clock rate fits. A division whose
  divisor is zero does not return at all (the CPU traps); it is an outcome of its own.
\<close>

datatype error = EINVAL | Division_by_zero

text \<open>
  Modelled from the spec: the macro \<open>do_div(n, base)\<close> of asm/div64.h, which is not part
  of the driver's file. It replaces the 64-bit \<open>n\<close> by the truncated quotient of \<open>n\<close>
  by the 32-bit \<open>base\<close> (the spec's "integer truncating division"); \<open>None\<close> is the
  division by zero.
\<close>

definition do_div :: "u64 \<Rightarrow> u32 \<Rightarrow> u64 option" where
  "do_div n base = (if base = 0 then None else Some (n div ucast base))"

text \<open>\<open>BIT(n)\<close> is \<open>1UL << n\<close>.\<close>

definition BIT :: "nat \<Rightarrow> ulong" where
  "BIT n = push_bit n 1"

subsection \<open>The rate search of \<open>jz4740_pwm_config\<close>\<close>

text \<open>
  The \<open>for (;;)\<close> loop of lines 126 to 139. \<open>round_rate\<close> is \<open>clk_round_rate(clk, _)\<close>
  of the channel's clock, with its \<open>long\<close> result already stored in the
  \<open>unsigned long new_rate\<close>. The loop leaves with \<open>break\<close> (\<open>Inr\<close> of the rate and
  the tick count \<open>tmp\<close>) or with \<open>return -EINVAL\<close>.
\<close>

function rate_search :: "(ulong \<Rightarrow> ulong) \<Rightarrow> s32 \<Rightarrow> ulong \<Rightarrow> error + (ulong \<times> u64)" where
  "rate_search round_rate period_ns rate =
     (case do_div (ucast rate * scast period_ns) 1000000000 of
        None \<Rightarrow> Inl Division_by_zero
      | Some tmp \<Rightarrow>
          if tmp \<le> 0xffff then Inr (rate, tmp)
          else
            let new_rate = round_rate (rate div 2) in
            if new_rate < rate then rate_search round_rate period_ns new_rate
            else Inl EINVAL)"
  by pat_completeness auto
termination
  by (relation "measure (\<lambda>(round_rate, period_ns, rate). unat rate)")
     (auto simp: word_less_nat_alt)

text \<open>
  Lines 145 to 150 of \<open>jz4740_pwm_config\<close>: the duty value from the period value.
  The product and the difference \<open>period - tmp\<close> are 64 bits wide and wrap around;
  the difference is cut to the \<open>unsigned long duty\<close>, and \<open>period - 1\<close> wraps
  around in 32 bits.
\<close>

definition config_duty :: "ulong \<Rightarrow> s32 \<Rightarrow> s32 \<Rightarrow> error + ulong" where
  "config_duty period duty_ns period_ns =
     (case do_div (ucast period * scast duty_ns) period_ns of
        None \<Rightarrow> Inl Division_by_zero
      | Some tmp \<Rightarrow>
          let duty = ucast (ucast period - tmp) in
          Inr (if duty \<ge> period then period - 1 else duty))"

subsection \<open>Registers, clocks and the channel lease\<close>

text \<open>
  The registers of the timer/counter unit that the driver names. Their offsets are
  macros of linux/mfd/ingenic-tcu.h, which is not part of the driver's file; distinct
  names stand for distinct registers. \<open>TCU_REG_TCSRc c\<close> is the control register of
  channel \<open>c\<close>, \<open>TCU_REG_TCNTc c\<close> its counter, \<open>TCU_REG_TDHRc c\<close> its duty (half
  data) register and \<open>TCU_REG_TDFRc c\<close> its period (full data) register;
  \<open>TCU_REG_TER\<close>, \<open>TCU_REG_TESR\<close> and \<open>TCU_REG_TECR\<close> are the global
  running-status, counter-start and counter-stop registers.
\<close>

datatype reg =
    TCU_REG_TER
  | TCU_REG_TESR
  | TCU_REG_TECR
  | TCU_REG_TCSRc nat
  | TCU_REG_TCNTc nat
  | TCU_REG_TDHRc nat
  | TCU_REG_TDFRc nat

text \<open>
  The masks of the control register's PWM bits are macros of the same header. They are
  parameters here: every result below holds for whatever masks the header gives.
\<close>

record tcsr_bits =
  TCU_TCSR_PWM_EN :: u32
  TCU_TCSR_PWM_SD :: u32
  TCU_TCSR_PWM_INITL_HIGH :: u32

text \<open>The calls the driver makes to its collaborators, in the order it makes them.\<close>

datatype event =
    Ingenic_tcu_request_channel nat
  | Ingenic_tcu_release_channel nat
  | Clk_get string
  | Clk_put ulong
  | Clk_prepare_enable ulong
  | Clk_disable_unprepare ulong
  | Clk_set_rate ulong ulong
  | Regmap_read reg
  | Regmap_write reg u32
  | Regmap_update_bits reg u32 u32

text \<open>
  \<open>struct jz4740_pwm_chip\<close> with the state of its collaborators: \<open>clks\<close> is the array
  \<open>clks[NUM_PWM]\<close> (the PWM core only passes \<open>hwpwm < npwm \<le> NUM_PWM\<close>), \<open>regs\<close> the
  registers behind \<open>map\<close>, \<open>clk_rate\<close> the current rate of each clock, \<open>leased\<close> the
  channels of the timer unit that are requested, \<open>clk_refs\<close> the clock handles that
  were got and not yet put, \<open>clk_on\<close> the clocks that were prepared and enabled and
  not yet disabled, and \<open>calls\<close> the calls made so far.
\<close>

record jz4740_pwm_chip =
  clks :: "nat \<Rightarrow> ulong"
  regs :: "reg \<Rightarrow> u32"
  clk_rate :: "ulong \<Rightarrow> ulong"
  leased :: "nat set"
  clk_refs :: "ulong multiset"
  clk_on :: "ulong multiset"
  calls :: "event list"

definition called :: "event \<Rightarrow> jz4740_pwm_chip \<Rightarrow> jz4740_pwm_chip" where
  "called e s = s\<lparr>calls := calls s @ [e]\<rparr>"

subsubsection \<open>The register interface\<close>

text \<open>
  Modelled from the spec: what the timer unit does with a value written to a register
  (the hardware is not part of the driver's file). The spec's register model has a
  counter-start and a counter-stop trigger register with one bit per channel and a
  running-status register with one bit per channel: a bit written to the start
  register sets the channel's status bit, a bit written to the stop register clears
  it, and the status register itself is only read. Every other register holds the
  value written to it.
\<close>

definition tcu_write :: "reg \<Rightarrow> u32 \<Rightarrow> (reg \<Rightarrow> u32) \<Rightarrow> (reg \<Rightarrow> u32)" where
  "tcu_write r v rf =
     (case r of
        TCU_REG_TESR \<Rightarrow> rf(TCU_REG_TER := rf TCU_REG_TER OR v)
      | TCU_REG_TECR \<Rightarrow> rf(TCU_REG_TER := rf TCU_REG_TER AND NOT v)
      | TCU_REG_TER \<Rightarrow> rf
      | _ \<Rightarrow> rf(r := v))"

text \<open>
  Modelled from the spec: \<open>regmap_read\<close>, \<open>regmap_write\<close> and \<open>regmap_update_bits\<close>
  of linux/regmap.h, the spec's "atomic read/update-bits/write access to named
  registers". The driver ignores their results; register accesses are assumed to
  succeed. \<open>regmap_update_bits\<close> replaces the bits of the mask \<open>msk\<close> by those of \<open>val\<close> and
  writes only a value that differs from the one read.
\<close>

definition regmap_read :: "reg \<Rightarrow> jz4740_pwm_chip \<Rightarrow> u32 \<times> jz4740_pwm_chip" where
  "regmap_read r s = (regs s r, called (Regmap_read r) s)"

definition regmap_write :: "reg \<Rightarrow> u32 \<Rightarrow> jz4740_pwm_chip \<Rightarrow> jz4740_pwm_chip" where
  "regmap_write r v s = called (Regmap_write r v) (s\<lparr>regs := tcu_write r v (regs s)\<rparr>)"

definition regmap_update_bits :: "reg \<Rightarrow> u32 \<Rightarrow> u32 \<Rightarrow> jz4740_pwm_chip \<Rightarrow> jz4740_pwm_chip" where
  "regmap_update_bits r msk val s =
     (let orig = regs s r;
          tmp = (orig AND NOT msk) OR (val AND msk)
      in called (Regmap_update_bits r msk val)
           (if tmp \<noteq> orig then s\<lparr>regs := tcu_write r tmp (regs s)\<rparr> else s))"

subsubsection \<open>The clock provider\<close>

text \<open>
  Modelled from the spec: the clock operations of linux/clk.h, the spec's ClockHandle
  with get-rate and set-rate (round-rate is a parameter of the rate search). A clock
  handle is the pointer \<open>struct clk *\<close>. \<open>clk_get\<close> returns the pointer \<open>got\<close> that
  the provider chooses, an error pointer when it fails; \<open>clk_prepare_enable\<close> returns
  the provider's result \<open>en\<close>, zero when the clock is on. \<open>clk_set_rate\<close> is asked for
  the clock's current rate or for a rate that \<open>clk_round_rate\<close> returned, and the
  clock then runs at it.
\<close>

text \<open>
  \<open>IS_ERR\<close> and \<open>PTR_ERR\<close> are macros of linux/err.h, which is not part of the driver's
  file: an error pointer is one of the last 4095 addresses (\<open>MAX_ERRNO\<close> is 4095), and
  its error number is the pointer read as a \<open>long\<close>, here stored in the \<open>int ret\<close>.
\<close>

definition IS_ERR :: "ulong \<Rightarrow> bool" where
  "IS_ERR ptr = (ptr \<ge> - 4095)"

definition PTR_ERR :: "ulong \<Rightarrow> s32" where
  "PTR_ERR ptr = ptr"

definition clk_get :: "ulong \<Rightarrow> string \<Rightarrow> jz4740_pwm_chip \<Rightarrow> ulong \<times> jz4740_pwm_chip" where
  "clk_get got name s =
     (got, called (Clk_get name)
             (if IS_ERR got then s else s\<lparr>clk_refs := add_mset got (clk_refs s)\<rparr>))"

definition clk_put :: "ulong \<Rightarrow> jz4740_pwm_chip \<Rightarrow> jz4740_pwm_chip" where
  "clk_put clk s = called (Clk_put clk) (s\<lparr>clk_refs := clk_refs s - {#clk#}\<rparr>)"

definition clk_prepare_enable :: "s32 \<Rightarrow> ulong \<Rightarrow> jz4740_pwm_chip \<Rightarrow> s32 \<times> jz4740_pwm_chip" where
  "clk_prepare_enable en clk s =
     (en, called (Clk_prepare_enable clk)
            (if en = 0 then s\<lparr>clk_on := add_mset clk (clk_on s)\<rparr> else s))"

definition clk_disable_unprepare :: "ulong \<Rightarrow> jz4740_pwm_chip \<Rightarrow> jz4740_pwm_chip" where
  "clk_disable_unprepare clk s =
     called (Clk_disable_unprepare clk) (s\<lparr>clk_on := clk_on s - {#clk#}\<rparr>)"

definition clk_get_rate :: "ulong \<Rightarrow> jz4740_pwm_chip \<Rightarrow> ulong" where
  "clk_get_rate clk s = clk_rate s clk"

definition clk_set_rate :: "ulong \<Rightarrow> ulong \<Rightarrow> jz4740_pwm_chip \<Rightarrow> jz4740_pwm_chip" where
  "clk_set_rate clk rate s =
     called (Clk_set_rate clk rate) (s\<lparr>clk_rate := (clk_rate s)(clk := rate)\<rparr>)"

subsubsection \<open>The channel lease of the timer unit\<close>

text \<open>
  Modelled from the spec: \<open>ingenic_tcu_request_channel\<close> and
  \<open>ingenic_tcu_release_channel\<close> of the timer unit's driver, which is not part of the
  driver's file. The request "acquires an exclusive lease on the shared timer-unit
  channel" and "fails with ChannelBusy if already leased by any consumer" (the
  result \<open>-EBUSY\<close>, which is -16); the release gives the lease back.
\<close>

definition ingenic_tcu_request_channel :: "nat \<Rightarrow> jz4740_pwm_chip \<Rightarrow> s32 \<times> jz4740_pwm_chip" where
  "ingenic_tcu_request_channel c s =
     (if c \<in> leased s then (- 16, called (Ingenic_tcu_request_channel c) s)
      else (0, called (Ingenic_tcu_request_channel c) (s\<lparr>leased := insert c (leased s)\<rparr>)))"

definition ingenic_tcu_release_channel :: "nat \<Rightarrow> jz4740_pwm_chip \<Rightarrow> jz4740_pwm_chip" where
  "ingenic_tcu_release_channel c s =
     called (Ingenic_tcu_release_channel c) (s\<lparr>leased := leased s - {c}\<rparr>)"

subsection \<open>The operations of the driver\<close>

text \<open>The \<open>%u\<close> of \<open>snprintf\<close>: an unsigned number in decimal.\<close>

fun dec :: "nat \<Rightarrow> string" where
  "dec n = (if n < 10 then [char_of (48 + n)] else dec (n div 10) @ [char_of (48 + n mod 10)])"

declare dec.simps [simp del]
declare rate_search.simps [simp del]

text \<open>
  \<open>jz4740_pwm_request\<close>, lines 43 to 74. \<open>got\<close> and \<open>en\<close> are what the clock provider
  answers to \<open>clk_get\<close> and \<open>clk_prepare_enable\<close>. The name is cut to the 15
  characters that fit \<open>clk_name[16]\<close>. The result is the returned \<open>int\<close> and the state.
\<close>

definition jz4740_pwm_request :: "ulong \<Rightarrow> s32 \<Rightarrow> nat \<Rightarrow> jz4740_pwm_chip \<Rightarrow> s32 \<times> jz4740_pwm_chip" where
  "jz4740_pwm_request got en hwpwm s =
     (let (ret, s) = ingenic_tcu_request_channel hwpwm s in
      if ret \<noteq> 0 then (ret, s)
      else
        let clk_name = take 15 (''timer'' @ dec hwpwm);
            (clk, s) = clk_get got clk_name s
        in
          if IS_ERR clk then
            (let ret = PTR_ERR clk in (ret, ingenic_tcu_release_channel hwpwm s))
          else
            let (ret, s) = clk_prepare_enable en clk s in
            if ret \<noteq> 0 then (ret, ingenic_tcu_release_channel hwpwm (clk_put clk s))
            else (0, s\<lparr>clks := (clks s)(hwpwm := clk)\<rparr>))"

text \<open>\<open>jz4740_pwm_free\<close>, lines 76 to 84.\<close>

definition jz4740_pwm_free :: "nat \<Rightarrow> jz4740_pwm_chip \<Rightarrow> jz4740_pwm_chip" where
  "jz4740_pwm_free hwpwm s =
     (let clk = clks s hwpwm;
          s = clk_disable_unprepare clk s;
          s = clk_put clk s
      in ingenic_tcu_release_channel hwpwm s)"

text \<open>\<open>jz4740_pwm_enable\<close>, lines 86 to 97; it returns 0.\<close>

definition jz4740_pwm_enable :: "tcsr_bits \<Rightarrow> nat \<Rightarrow> jz4740_pwm_chip \<Rightarrow> s32 \<times> jz4740_pwm_chip" where
  "jz4740_pwm_enable hw hwpwm s =
     (let s = regmap_update_bits (TCU_REG_TCSRc hwpwm) (TCU_TCSR_PWM_EN hw) (TCU_TCSR_PWM_EN hw) s;
          s = regmap_write TCU_REG_TESR (BIT hwpwm) s
      in (0, s))"

text \<open>\<open>jz4740_pwm_disable\<close>, lines 99 to 112.\<close>

definition jz4740_pwm_disable :: "tcsr_bits \<Rightarrow> nat \<Rightarrow> jz4740_pwm_chip \<Rightarrow> jz4740_pwm_chip" where
  "jz4740_pwm_disable hw hwpwm s =
     (let s = regmap_update_bits (TCU_REG_TCSRc hwpwm) (TCU_TCSR_PWM_EN hw) 0 s
      in regmap_write TCU_REG_TECR (BIT hwpwm) s)"

text \<open>
  Lines 152 to 171 of \<open>jz4740_pwm_config\<close>: the registers are programmed with the
  duty and period values, around a disable and an enable when the channel runs.
\<close>

definition config_program :: "tcsr_bits \<Rightarrow> nat \<Rightarrow> ulong \<Rightarrow> ulong \<Rightarrow> jz4740_pwm_chip \<Rightarrow> jz4740_pwm_chip" where
  "config_program hw hwpwm duty period s =
     (let (tcsr, s) = regmap_read TCU_REG_TER s;
          is_enabled = (tcsr AND BIT hwpwm \<noteq> 0);
          s = (if is_enabled then jz4740_pwm_disable hw hwpwm s else s);
          s = regmap_update_bits (TCU_REG_TCSRc hwpwm) (TCU_TCSR_PWM_SD hw) (TCU_TCSR_PWM_SD hw) s;
          s = regmap_write (TCU_REG_TCNTc hwpwm) 0 s;
          s = regmap_write (TCU_REG_TDHRc hwpwm) duty s;
          s = regmap_write (TCU_REG_TDFRc hwpwm) period s
      in if is_enabled then snd (jz4740_pwm_enable hw hwpwm s) else s)"

text \<open>
  \<open>jz4740_pwm_config\<close>, lines 114 to 174. \<open>clk_round_rate\<close> is the clock provider's
  function of that name. \<open>Inr\<close> is the return of 0 with the state it leaves;
  \<open>Inl\<close> is the error with the state at that moment: for \<open>EINVAL\<close> the state the
  function returns in, for \<open>Division_by_zero\<close> the state the trap finds.
\<close>

definition jz4740_pwm_config ::
  "tcsr_bits \<Rightarrow> (ulong \<Rightarrow> ulong \<Rightarrow> ulong) \<Rightarrow> nat \<Rightarrow> s32 \<Rightarrow> s32 \<Rightarrow> jz4740_pwm_chip \<Rightarrow>
     (error \<times> jz4740_pwm_chip) + jz4740_pwm_chip" where
  "jz4740_pwm_config hw clk_round_rate hwpwm duty_ns period_ns s =
     (let clk = clks s hwpwm;
          rate = clk_get_rate clk s
      in
        case rate_search (clk_round_rate clk) period_ns rate of
          Inl e \<Rightarrow> Inl (e, s)
        | Inr (rate, tmp) \<Rightarrow>
            let s = clk_set_rate clk rate s;
                period = ucast tmp
            in
              (case config_duty period duty_ns period_ns of
                 Inl e \<Rightarrow> Inl (e, s)
               | Inr duty \<Rightarrow> Inr (config_program hw hwpwm duty period s)))"

text \<open>\<open>jz4740_pwm_set_polarity\<close>, lines 176 to 193; it returns 0.\<close>

datatype pwm_polarity = PWM_POLARITY_NORMAL | PWM_POLARITY_INVERSED

definition jz4740_pwm_set_polarity ::
  "tcsr_bits \<Rightarrow> nat \<Rightarrow> pwm_polarity \<Rightarrow> jz4740_pwm_chip \<Rightarrow> s32 \<times> jz4740_pwm_chip" where
  "jz4740_pwm_set_polarity hw hwpwm polarity s =
     (case polarity of
        PWM_POLARITY_NORMAL \<Rightarrow>
          (0, regmap_update_bits (TCU_REG_TCSRc hwpwm) (TCU_TCSR_PWM_INITL_HIGH hw) 0 s)
      | PWM_POLARITY_INVERSED \<Rightarrow>
          (0, regmap_update_bits (TCU_REG_TCSRc hwpwm) (TCU_TCSR_PWM_INITL_HIGH hw)
                (TCU_TCSR_PWM_INITL_HIGH hw) s))"

subsection \<open>Sample values\<close>

text \<open>
  A choice of the three masks (three distinct single bits) and a chip with no channel
  requested, every register zero but the running-status register, and every clock at
  one rate. They instantiate the results below.
\<close>

definition sample_bits :: tcsr_bits where
  "sample_bits =
     \<lparr>TCU_TCSR_PWM_EN = BIT 7, TCU_TCSR_PWM_SD = BIT 9, TCU_TCSR_PWM_INITL_HIGH = BIT 8\<rparr>"

definition sample_chip :: "ulong \<Rightarrow> u32 \<Rightarrow> jz4740_pwm_chip" where
  "sample_chip rate ter =
     \<lparr>clks = (\<lambda>c. 0x80001000 + of_nat c),
      regs = (\<lambda>r. if r = TCU_REG_TER then ter else 0),
      clk_rate = (\<lambda>clk. rate),
      leased = {},
      clk_refs = {#},
      clk_on = {#},
      calls = []\<rparr>"

section \<open>Properties\<close>

subsection \<open>Auxiliary facts\<close>

lemma do_div_const: "do_div n 1000000000 = Some (n div 1000000000)"
  by (simp add: do_div_def)

lemma called_simps [simp]:
  "calls (called e s) = calls s @ [e]"
  "regs (called e s) = regs s"
  "clks (called e s) = clks s"
  "clk_rate (called e s) = clk_rate s"
  "leased (called e s) = leased s"
  "clk_refs (called e s) = clk_refs s"
  "clk_on (called e s) = clk_on s"
  by (simp_all add: called_def)

lemma regmap_write_simps [simp]:
  "calls (regmap_write r v s) = calls s @ [Regmap_write r v]"
  "regs (regmap_write r v s) = tcu_write r v (regs s)"
  "clks (regmap_write r v s) = clks s"
  "clk_rate (regmap_write r v s) = clk_rate s"
  "leased (regmap_write r v s) = leased s"
  "clk_refs (regmap_write r v s) = clk_refs s"
  "clk_on (regmap_write r v s) = clk_on s"
  by (simp_all add: regmap_write_def)

lemma regmap_update_bits_simps [simp]:
  "calls (regmap_update_bits r m v s) = calls s @ [Regmap_update_bits r m v]"
  "clks (regmap_update_bits r m v s) = clks s"
  "clk_rate (regmap_update_bits r m v s) = clk_rate s"
  "leased (regmap_update_bits r m v s) = leased s"
  "clk_refs (regmap_update_bits r m v s) = clk_refs s"
  "clk_on (regmap_update_bits r m v s) = clk_on s"
  by (simp_all add: regmap_update_bits_def Let_def)

lemma regs_update_bits_TCSR [simp]:
  "regs (regmap_update_bits (TCU_REG_TCSRc c) m v s) =
     (regs s)(TCU_REG_TCSRc c := (regs s (TCU_REG_TCSRc c) AND NOT m) OR (v AND m))"
  by (auto simp: regmap_update_bits_def Let_def tcu_write_def)

lemma tcu_write_simps [simp]:
  "tcu_write TCU_REG_TESR v rf = rf(TCU_REG_TER := rf TCU_REG_TER OR v)"
  "tcu_write TCU_REG_TECR v rf = rf(TCU_REG_TER := rf TCU_REG_TER AND NOT v)"
  "tcu_write (TCU_REG_TCNTc c) v rf = rf(TCU_REG_TCNTc c := v)"
  "tcu_write (TCU_REG_TDHRc c) v rf = rf(TCU_REG_TDHRc c := v)"
  "tcu_write (TCU_REG_TDFRc c) v rf = rf(TCU_REG_TDFRc c := v)"
  by (simp_all add: tcu_write_def)

lemma enable_calls:
  "calls (snd (jz4740_pwm_enable hw c s)) =
     calls s @ [Regmap_update_bits (TCU_REG_TCSRc c) (TCU_TCSR_PWM_EN hw) (TCU_TCSR_PWM_EN hw),
                Regmap_write TCU_REG_TESR (BIT c)]"
  by (simp add: jz4740_pwm_enable_def)

lemma disable_calls:
  "calls (jz4740_pwm_disable hw c s) =
     calls s @ [Regmap_update_bits (TCU_REG_TCSRc c) (TCU_TCSR_PWM_EN hw) 0,
                Regmap_write TCU_REG_TECR (BIT c)]"
  by (simp add: jz4740_pwm_disable_def)

lemma config_program_calls:
  "calls (config_program hw c duty period s) =
     calls s @ [Regmap_read TCU_REG_TER] @
     (if regs s TCU_REG_TER AND BIT c \<noteq> 0
      then [Regmap_update_bits (TCU_REG_TCSRc c) (TCU_TCSR_PWM_EN hw) 0,
            Regmap_write TCU_REG_TECR (BIT c)] else []) @
     [Regmap_update_bits (TCU_REG_TCSRc c) (TCU_TCSR_PWM_SD hw) (TCU_TCSR_PWM_SD hw),
      Regmap_write (TCU_REG_TCNTc c) 0,
      Regmap_write (TCU_REG_TDHRc c) duty,
      Regmap_write (TCU_REG_TDFRc c) period] @
     (if regs s TCU_REG_TER AND BIT c \<noteq> 0
      then [Regmap_update_bits (TCU_REG_TCSRc c) (TCU_TCSR_PWM_EN hw) (TCU_TCSR_PWM_EN hw),
            Regmap_write TCU_REG_TESR (BIT c)] else [])"
  by (simp add: config_program_def regmap_read_def enable_calls disable_calls)

lemma config_program_regs:
  "regs (config_program hw c duty period s) (TCU_REG_TDFRc c) = period"
  "regs (config_program hw c duty period s) (TCU_REG_TDHRc c) = duty"
  "regs (config_program hw c duty period s) (TCU_REG_TCNTc c) = 0"
  by (simp_all add: config_program_def regmap_read_def jz4740_pwm_enable_def jz4740_pwm_disable_def Let_def)

lemma and_BIT_eq_0: "\<not> bit x c \<Longrightarrow> x AND BIT c = 0"
  unfolding BIT_def
  by (rule bit_eqI) (auto simp: bit_simps)

lemma set_clear_bit: "x AND BIT c \<noteq> 0 \<Longrightarrow> (x AND NOT (BIT c)) OR BIT c = x"
proof -
  assume "x AND BIT c \<noteq> 0"
  then have "bit x c" using and_BIT_eq_0 by blast
  then show ?thesis
    unfolding BIT_def by - (rule bit_eqI, auto simp: bit_simps)
qed

lemma config_program_TER:
  "regs (config_program hw c duty period s) TCU_REG_TER = regs s TCU_REG_TER"
  by (simp add: config_program_def regmap_read_def jz4740_pwm_enable_def jz4740_pwm_disable_def set_clear_bit Let_def)

lemma ucast_ticks_le: "(t :: u64) \<le> 0xffff \<Longrightarrow> (ucast t :: ulong) \<le> 0xffff"
proof -
  assume "t \<le> 0xffff"
  then have le: "unat t \<le> 65535" by (simp add: word_le_nat_alt)
  have "unat (ucast t :: ulong) = take_bit 32 (unat t)"
    by (simp add: unsigned_ucast_eq)
  also have "\<dots> = unat t"
    using le by (simp add: take_bit_nat_eq_self)
  finally show ?thesis using le by (simp add: word_le_nat_alt)
qed

lemma rate_search_cases:
  "rate_search rr p rate = Inl EINVAL \<or>
   (\<exists>rate' tmp. rate_search rr p rate = Inr (rate', tmp) \<and> tmp \<le> 0xffff)"
proof (induction rr p rate rule: rate_search.induct)
  case (1 rr p rate)
  show ?case
    using 1 by (subst (1 2) rate_search.simps) (simp add: do_div_const Let_def)
qed

lemma sint_pos_nonzero: "0 < sint (x :: s32) \<Longrightarrow> x \<noteq> 0"
  by auto

lemma config_duty_total: "period_ns \<noteq> 0 \<Longrightarrow> \<exists>duty. config_duty period duty_ns period_ns = Inr duty"
  by (simp add: config_duty_def do_div_def Let_def)

lemma config_duty_lt:
  "config_duty period duty_ns period_ns = Inr duty \<Longrightarrow> period \<noteq> 0 \<Longrightarrow> duty < period"
  by (auto simp: config_duty_def Let_def word_less_nat_alt word_le_nat_alt unat_sub
        unat_minus_one unat_gt_0 split: option.splits if_splits)

lemma config_duty_zero:
  "config_duty 0 duty_ns period_ns = Inr duty \<Longrightarrow> duty = - 1"
  by (auto simp: config_duty_def Let_def split: option.splits if_splits)

lemma config_Inr:
  assumes "jz4740_pwm_config hw crr c duty_ns period_ns s = Inr s'"
  obtains rate and ticks :: u64 and duty where
    "rate_search (crr (clks s c)) period_ns (clk_get_rate (clks s c) s) = Inr (rate, ticks)"
    "config_duty (ucast ticks) duty_ns period_ns = Inr duty"
    "s' = config_program hw c duty (ucast ticks) (clk_set_rate (clks s c) rate s)"
  using assms
  by (auto simp: jz4740_pwm_config_def Let_def split: sum.splits prod.splits)

lemma clk_set_rate_simps [simp]:
  "calls (clk_set_rate clk rate s) = calls s @ [Clk_set_rate clk rate]"
  "regs (clk_set_rate clk rate s) = regs s"
  "clks (clk_set_rate clk rate s) = clks s"
  "clk_rate (clk_set_rate clk rate s) = (clk_rate s)(clk := rate)"
  "leased (clk_set_rate clk rate s) = leased s"
  "clk_refs (clk_set_rate clk rate s) = clk_refs s"
  "clk_on (clk_set_rate clk rate s) = clk_on s"
  by (simp_all add: clk_set_rate_def)

lemma config_Inl:
  assumes "jz4740_pwm_config hw crr c duty_ns period_ns s = Inl (e, s')"
  shows "regs s' = regs s" and "e = EINVAL \<Longrightarrow> s' = s"
  using assms rate_search_cases [of "crr (clks s c)" period_ns "clk_get_rate (clks s c) s"]
  by (auto simp: jz4740_pwm_config_def Let_def config_duty_def split: sum.splits prod.splits option.splits)

lemma config_program_frame:
  "clks (config_program hw c duty period s) = clks s"
  "clk_rate (config_program hw c duty period s) = clk_rate s"
  "leased (config_program hw c duty period s) = leased s"
  "clk_refs (config_program hw c duty period s) = clk_refs s"
  "clk_on (config_program hw c duty period s) = clk_on s"
  by (simp_all add: config_program_def regmap_read_def jz4740_pwm_enable_def
        jz4740_pwm_disable_def Let_def)

lemma rate_search_no_div0: "rate_search rr p rate \<noteq> Inl Division_by_zero"
  using rate_search_cases [of rr p rate] by auto

lemma unat_ucast_rate: "unat (ucast (rate :: ulong) :: u64) = unat rate"
proof -
  have "unat rate < 2 ^ 32" using unsigned_less [of rate] by simp
  then have "unat rate < 2 ^ 64" by simp
  then show ?thesis by (simp add: unsigned_ucast_eq take_bit_nat_eq_self)
qed

lemma unat_scast_pos:
  assumes "0 < sint (p :: s32)"
  shows "unat (scast p :: u64) = nat (sint p)"
proof -
  have "sint p < 2 ^ 31" using sint_lt [of p] by simp
  then have lt: "sint p < 2 ^ 64" by simp
  have "uint (scast p :: u64) = uint (word_of_int (sint p) :: u64)"
    by (simp only: scast_eq)
  also have "\<dots> = sint p mod 2 ^ 64"
    by (simp only: uint_word_of_int) simp
  also have "\<dots> = sint p"
    using assms lt by simp
  finally have "uint (scast p :: u64) = sint p" .
  then have "nat (uint (scast p :: u64)) = nat (sint p)" by (rule arg_cong)
  then show ?thesis by simp
qed

lemma ticks_exact:
  assumes "0 < sint (p :: s32)"
  shows "unat ((ucast (rate :: ulong) * scast p) div 1000000000 :: u64) =
         unat rate * nat (sint p) div 1000000000"
proof -
  have r: "unat rate < 2 ^ 32" using unsigned_less [of rate] by simp
  have lt: "sint p < 2 ^ 31" using sint_lt [of p] by simp
  then have p: "nat (sint p) < 2 ^ 31" using assms by (simp add: nat_less_iff)
  have "unat rate * nat (sint p) < 2 ^ 32 * 2 ^ 31"
    using r p by (rule mult_strict_mono) simp_all
  then have bound: "unat rate * nat (sint p) < 2 ^ 64" by simp
  have "unat ((ucast rate :: u64) * scast p) = unat rate * nat (sint p)"
    using bound unat_mult_lem [of "ucast rate :: u64" "scast p"]
    by (simp add: unat_ucast_rate unat_scast_pos [OF assms])
  then show ?thesis by (simp add: unat_div)
qed

lemma mask_bits_set: "((x AND NOT m) OR (m AND m)) AND m = (m :: u32)"
  by (rule bit_eqI) (auto simp: bit_simps)

lemma mask_bits_clear: "(x AND NOT m) AND m = (0 :: u32)"
  by (rule bit_eqI) (auto simp: bit_simps)

lemma mask_bits_kept: "(((x AND NOT m) OR m) AND NOT e OR e) AND m = (m :: u32)"
  by (rule bit_eqI) (auto simp: bit_simps)

lemma config_program_TCSR_SD:
  "regs (config_program hw c duty period s) (TCU_REG_TCSRc c) AND TCU_TCSR_PWM_SD hw =
     TCU_TCSR_PWM_SD hw"
  by (simp add: config_program_def regmap_read_def jz4740_pwm_enable_def
        jz4740_pwm_disable_def Let_def mask_bits_set mask_bits_kept)

lemma config_program_TCSR_enabled:
  "regs s TCU_REG_TER AND BIT c \<noteq> 0 \<Longrightarrow>
   regs (config_program hw c duty period s) (TCU_REG_TCSRc c) AND TCU_TCSR_PWM_EN hw =
     TCU_TCSR_PWM_EN hw"
  by (simp add: config_program_def regmap_read_def jz4740_pwm_enable_def
        jz4740_pwm_disable_def Let_def)

lemma sample_config_runs:
  "\<exists>s'. jz4740_pwm_config sample_bits (\<lambda>clk r. r) 0 500000 1000000 (sample_chip 200000000 ter) = Inr s'"
  by (simp add: jz4740_pwm_config_def rate_search.simps do_div_def sample_chip_def
      clk_get_rate_def config_duty_def Let_def)

lemma dec_3: "dec 3 = ''3''"
  by code_simp

subsection \<open>The duty and period values\<close>

text \<open>
  Claim C1. The claim is that after every successful \<open>jz4740_pwm_config\<close> the duty
  value written is below the period value written. The clamp of lines 149 and 150
  gives that whenever the period value is not zero (\<open>config_duty_lt\<close>). It fails
  when the tick count is zero: with the clock at 48,000,000 Hz, \<open>period_ns = 10\<close> and
  \<open>duty_ns = 5\<close> the call returns 0, the period written is 0, and the clamp
  \<open>period - 1\<close> wraps around, so the duty written is \<open>0xffffffff\<close>.
\<close>

theorem config_zero_period:
  "\<exists>s'. jz4740_pwm_config hw crr c 5 10 (sample_chip 48000000 ter) = Inr s' \<and>
        regs s' (TCU_REG_TDFRc c) = 0 \<and>
        regs s' (TCU_REG_TDHRc c) = 0xffffffff \<and>
        \<not> regs s' (TCU_REG_TDHRc c) < regs s' (TCU_REG_TDFRc c)"
  by (simp add: jz4740_pwm_config_def rate_search.simps do_div_def sample_chip_def clk_get_rate_def
      config_duty_def config_program_regs clk_set_rate_def Let_def)

text \<open>
  In general the duty value written is below the period value written exactly when
  the period value is not zero.
\<close>

theorem config_duty_below_period:
  assumes "jz4740_pwm_config hw crr c duty_ns period_ns s = Inr s'"
  shows "(regs s' (TCU_REG_TDHRc c) < regs s' (TCU_REG_TDFRc c)) = (regs s' (TCU_REG_TDFRc c) \<noteq> 0)"
proof -
  from assms obtain rate and ticks :: u64 and duty where
    "rate_search (crr (clks s c)) period_ns (clk_get_rate (clks s c) s) = Inr (rate, ticks)" and
    d: "config_duty (ucast ticks) duty_ns period_ns = Inr duty" and
    s': "s' = config_program hw c duty (ucast ticks) (clk_set_rate (clks s c) rate s)"
    by (rule config_Inr)
  show ?thesis
  proof (cases "(ucast ticks :: ulong) = 0")
    case True
    with d have "duty = - 1" by (simp add: config_duty_zero)
    with True s' show ?thesis by (simp add: config_program_regs)
  next
    case False
    with d have "duty < ucast ticks" by (rule config_duty_lt)
    with False s' show ?thesis by (simp add: config_program_regs)
  qed
qed

theorem config_duty_below_period_witness:
  "\<exists>s'. jz4740_pwm_config sample_bits (\<lambda>clk r. r) 0 500000 1000000 (sample_chip 200000000 0) = Inr s' \<and>
        regs s' (TCU_REG_TDFRc 0) = 50000 \<and>
        regs s' (TCU_REG_TDHRc 0) < regs s' (TCU_REG_TDFRc 0)"
proof -
  have c: "jz4740_pwm_config sample_bits (\<lambda>clk r. r) 0 500000 1000000 (sample_chip 200000000 0) =
      Inr (config_program sample_bits 0 25000 50000
            (clk_set_rate 0x80001000 50000000 (sample_chip 200000000 0)))"
    by (simp add: jz4740_pwm_config_def rate_search.simps do_div_def sample_chip_def
        clk_get_rate_def config_duty_def Let_def)
  from config_duty_below_period [OF c] show ?thesis
    by (simp add: c config_program_regs)
qed

subsection \<open>The rate search and the tick counts\<close>

text \<open>
  Claim C2. For every \<open>period_ns > 0\<close>, every rate of the channel's clock and every
  \<open>clk_round_rate\<close>, the rate search ends (it is a total function), and it ends in one
  of two ways: with \<open>-EINVAL\<close>, and then \<open>jz4740_pwm_config\<close> returns \<open>-EINVAL\<close> in
  the state it was called in; or with a tick count of at most \<open>0xffff\<close>, and then
  \<open>jz4740_pwm_config\<close> returns 0 and the period register holds that tick count, at
  most \<open>0xffff\<close>.
\<close>

theorem config_period_in_range:
  assumes "0 < sint period_ns"
  shows "case rate_search (crr (clks s c)) period_ns (clk_get_rate (clks s c) s) of
           Inl e \<Rightarrow> e = EINVAL \<and> jz4740_pwm_config hw crr c duty_ns period_ns s = Inl (EINVAL, s)
         | Inr (rate, ticks) \<Rightarrow>
             ticks \<le> 0xffff \<and>
             (\<exists>s'. jz4740_pwm_config hw crr c duty_ns period_ns s = Inr s' \<and>
                   regs s' (TCU_REG_TDFRc c) = ucast ticks \<and>
                   regs s' (TCU_REG_TDFRc c) \<le> 0xffff)"
proof -
  from assms have nz: "period_ns \<noteq> 0" by (rule sint_pos_nonzero)
  let ?r = "rate_search (crr (clks s c)) period_ns (clk_get_rate (clks s c) s)"
  from rate_search_cases [of "crr (clks s c)" period_ns "clk_get_rate (clks s c) s"]
  show ?thesis
  proof
    assume "?r = Inl EINVAL"
    then show ?thesis by (simp add: jz4740_pwm_config_def)
  next
    assume "\<exists>rate' tmp. ?r = Inr (rate', tmp) \<and> tmp \<le> 0xffff"
    then obtain rate' tmp where r: "?r = Inr (rate', tmp)" and le: "tmp \<le> 0xffff" by blast
    from config_duty_total [OF nz] obtain duty
      where d: "config_duty (ucast tmp) duty_ns period_ns = Inr duty" by blast
    from r le d show ?thesis
      by (simp add: jz4740_pwm_config_def config_program_regs ucast_ticks_le)
  qed
qed

theorem config_period_in_range_witness:
  "0 < sint (1000000 :: s32) \<and>
   (\<exists>s'. jz4740_pwm_config sample_bits (\<lambda>clk r. r) 0 500000 1000000 (sample_chip 200000000 0) = Inr s' \<and>
         regs s' (TCU_REG_TDFRc 0) = 50000)"
  using config_period_in_range [where period_ns = 1000000 and crr = "\<lambda>clk r. r"
      and s = "sample_chip 200000000 0" and c = 0 and hw = sample_bits and duty_ns = 500000]
  by (auto simp: rate_search.simps do_div_def sample_chip_def clk_get_rate_def)

text \<open>
  Claim C4. Let \<open>ticks\<close> be the tick count \<open>floor(rate * period_ns / 1000000000)\<close>,
  computed in unbounded integers (for \<open>period_ns > 0\<close> the 64-bit product of the code
  does not overflow). If \<open>ticks\<close> is at most \<open>0xffff\<close> the search accepts \<open>rate\<close>.
  Otherwise it asks \<open>clk_round_rate\<close> for half the rate: a result strictly below \<open>rate\<close>
  becomes the rate and the search goes on from it, any other result ends the search
  with \<open>-EINVAL\<close>. When the search fails, \<open>jz4740_pwm_config\<close> returns \<open>-EINVAL\<close>
  in the state it was called in; when it accepts a rate, the first call
  \<open>jz4740_pwm_config\<close> makes is \<open>clk_set_rate\<close> with that rate, and the clock runs at
  it afterwards.
\<close>

theorem rate_search_halving:
  assumes "0 < sint period_ns"
  shows
    "(let ticks = unat rate * nat (sint period_ns) div 1000000000;
          new_rate = rr (rate div 2)
      in rate_search rr period_ns rate =
           (if ticks \<le> 65535 then Inr (rate, of_nat ticks)
            else if new_rate < rate then rate_search rr period_ns new_rate
            else Inl EINVAL)) \<and>
     (case rate_search (crr (clks s c)) period_ns (clk_get_rate (clks s c) s) of
        Inl e \<Rightarrow> jz4740_pwm_config hw crr c duty_ns period_ns s = Inl (EINVAL, s)
      | Inr (accepted, ticks) \<Rightarrow>
          (\<exists>s'. jz4740_pwm_config hw crr c duty_ns period_ns s = Inr s' \<and>
                clk_rate s' (clks s c) = accepted \<and>
                (\<exists>rest. calls s' = calls s @ Clk_set_rate (clks s c) accepted # rest)))"
proof -
  let ?tmp = "(ucast rate * scast period_ns) div 1000000000 :: u64"
  have t: "unat ?tmp = unat rate * nat (sint period_ns) div 1000000000"
    using assms by (rule ticks_exact)
  have le: "(?tmp \<le> 0xffff) = (unat rate * nat (sint period_ns) div 1000000000 \<le> 65535)"
    by (simp add: word_le_nat_alt t)
  have ofn: "of_nat (unat rate * nat (sint period_ns) div 1000000000) = ?tmp"
    by (simp only: t [symmetric] of_nat_unat ucast_id)
  have step: "rate_search rr period_ns rate =
      (if ?tmp \<le> 0xffff then Inr (rate, ?tmp)
       else if rr (rate div 2) < rate then rate_search rr period_ns (rr (rate div 2))
       else Inl EINVAL)"
    by (subst rate_search.simps) (simp add: do_div_const Let_def)
  have first: "let ticks = unat rate * nat (sint period_ns) div 1000000000;
          new_rate = rr (rate div 2)
      in rate_search rr period_ns rate =
           (if ticks \<le> 65535 then Inr (rate, of_nat ticks)
            else if new_rate < rate then rate_search rr period_ns new_rate
            else Inl EINVAL)"
    unfolding Let_def ofn le [symmetric] by (rule step)
  from assms have nz: "period_ns \<noteq> 0" by (rule sint_pos_nonzero)
  let ?r = "rate_search (crr (clks s c)) period_ns (clk_get_rate (clks s c) s)"
  have second: "case ?r of
        Inl e \<Rightarrow> jz4740_pwm_config hw crr c duty_ns period_ns s = Inl (EINVAL, s)
      | Inr (accepted, ticks) \<Rightarrow>
          (\<exists>s'. jz4740_pwm_config hw crr c duty_ns period_ns s = Inr s' \<and>
                clk_rate s' (clks s c) = accepted \<and>
                (\<exists>rest. calls s' = calls s @ Clk_set_rate (clks s c) accepted # rest))"
  proof (cases ?r)
    case (Inl e)
    with rate_search_cases [of "crr (clks s c)" period_ns "clk_get_rate (clks s c) s"]
    have "?r = Inl EINVAL" by auto
    then show ?thesis by (simp add: jz4740_pwm_config_def)
  next
    case (Inr p)
    obtain accepted tmp where p: "p = (accepted, tmp)" by (cases p)
    from config_duty_total [OF nz] obtain duty
      where d: "config_duty (ucast tmp) duty_ns period_ns = Inr duty" by blast
    from Inr p d show ?thesis
      by (simp add: jz4740_pwm_config_def config_program_frame config_program_calls)
  qed
  from first second show ?thesis by (rule conjI)
qed

theorem rate_search_halving_witness:
  "0 < sint (1000000 :: s32) \<and>
   rate_search (\<lambda>r. r) 1000000 200000000 = rate_search (\<lambda>r. r) 1000000 100000000 \<and>
   (\<exists>s'. jz4740_pwm_config sample_bits (\<lambda>clk r. r) 0 500000 1000000 (sample_chip 200000000 0) = Inr s' \<and>
         clk_rate s' 0x80001000 = 50000000)"
proof -
  have p: "0 < sint (1000000 :: s32)" by simp
  have r: "rate_search (\<lambda>r. r) 1000000 200000000 = Inr (50000000, 50000)"
    by (simp add: rate_search.simps do_div_def)
  have s: "clks (sample_chip 200000000 0) 0 = 0x80001000"
    "clk_get_rate 0x80001000 (sample_chip 200000000 0) = 200000000"
    by (simp_all add: sample_chip_def clk_get_rate_def)
  from rate_search_halving [OF p, where rate = 200000000 and rr = "\<lambda>r. r" and crr = "\<lambda>clk r. r"
      and s = "sample_chip 200000000 0" and c = 0 and hw = sample_bits and duty_ns = 500000]
  show ?thesis
    by (auto simp: s r Let_def)
qed

text \<open>
  Claim C9. With the channel's clock at 48,000,000 Hz, \<open>period_ns = 1000000\<close> and
  \<open>duty_ns = 500000\<close>, the search accepts 48,000,000 Hz at once, whatever
  \<open>clk_round_rate\<close> would answer; \<open>jz4740_pwm_config\<close> returns 0, sets the clock to
  48,000,000 Hz and writes 48000 to the period register and 24000 to the duty
  register.
\<close>

theorem scenario_A:
  assumes "clk_get_rate (clks s c) s = 48000000"
  shows "rate_search (crr (clks s c)) 1000000 48000000 = Inr (48000000, 48000) \<and>
         (\<exists>s'. jz4740_pwm_config hw crr c 500000 1000000 s = Inr s' \<and>
               clk_rate s' (clks s c) = 48000000 \<and>
               Clk_set_rate (clks s c) 48000000 \<in> set (calls s') \<and>
               regs s' (TCU_REG_TDFRc c) = 48000 \<and>
               regs s' (TCU_REG_TDHRc c) = 24000)"
proof -
  have r: "rate_search (crr (clks s c)) 1000000 48000000 = Inr (48000000, 48000)"
    by (simp add: rate_search.simps do_div_def)
  have d: "config_duty 48000 500000 1000000 = Inr 24000"
    by (simp add: config_duty_def do_div_def)
  from assms r d show ?thesis
    by (simp add: jz4740_pwm_config_def config_program_regs config_program_frame
        config_program_calls)
qed

theorem scenario_A_witness:
  "clk_get_rate (clks (sample_chip 48000000 0) 0) (sample_chip 48000000 0) = 48000000 \<and>
   (\<exists>s'. jz4740_pwm_config sample_bits (\<lambda>clk r. r) 0 500000 1000000 (sample_chip 48000000 0) = Inr s' \<and>
         regs s' (TCU_REG_TDFRc 0) = 48000 \<and>
         regs s' (TCU_REG_TDHRc 0) = 24000)"
proof -
  have h: "clk_get_rate (clks (sample_chip 48000000 0) 0) (sample_chip 48000000 0) = 48000000"
    by (simp add: clk_get_rate_def sample_chip_def)
  from scenario_A [OF h, of "\<lambda>clk r. r" sample_bits] h show ?thesis by blast
qed

subsection \<open>The order of the register accesses\<close>

text \<open>
  Claim C3. A successful \<open>jz4740_pwm_config\<close> leaves the running-status register as
  it found it, so the channel's bit in it, which the function reads to decide
  \<open>is_enabled\<close>, is set afterwards exactly when it was set before. When the bit was set,
  the last two calls are those of \<open>jz4740_pwm_enable\<close> and the output-enable bits of
  the control register end set; when it was clear, the function makes no call of
  \<open>jz4740_pwm_disable\<close> or \<open>jz4740_pwm_enable\<close> at all. A call that fails has not
  touched any register.
\<close>

theorem config_keeps_enabled_state:
  "case jz4740_pwm_config hw crr c duty_ns period_ns s of
     Inl (e, s') \<Rightarrow> regs s' = regs s
   | Inr s' \<Rightarrow>
       regs s' TCU_REG_TER = regs s TCU_REG_TER \<and>
       (regs s' TCU_REG_TER AND BIT c \<noteq> 0) = (regs s TCU_REG_TER AND BIT c \<noteq> 0) \<and>
       (if regs s TCU_REG_TER AND BIT c \<noteq> 0
        then regs s' (TCU_REG_TCSRc c) AND TCU_TCSR_PWM_EN hw = TCU_TCSR_PWM_EN hw \<and>
             (\<exists>before.
                calls s' = before @
                  [Regmap_update_bits (TCU_REG_TCSRc c) (TCU_TCSR_PWM_EN hw) (TCU_TCSR_PWM_EN hw),
                   Regmap_write TCU_REG_TESR (BIT c)])
        else calls s' = calls s @
               [Clk_set_rate (clks s c) (clk_rate s' (clks s c)),
                Regmap_read TCU_REG_TER,
                Regmap_update_bits (TCU_REG_TCSRc c) (TCU_TCSR_PWM_SD hw) (TCU_TCSR_PWM_SD hw),
                Regmap_write (TCU_REG_TCNTc c) 0,
                Regmap_write (TCU_REG_TDHRc c) (regs s' (TCU_REG_TDHRc c)),
                Regmap_write (TCU_REG_TDFRc c) (regs s' (TCU_REG_TDFRc c))])"
proof (cases "jz4740_pwm_config hw crr c duty_ns period_ns s")
  case (Inl p)
  obtain e s' where p: "p = (e, s')" by (cases p)
  with Inl have "regs s' = regs s" by (simp add: config_Inl)
  with Inl p show ?thesis by simp
next
  case (Inr s')
  then obtain rate and ticks :: u64 and duty where
    "rate_search (crr (clks s c)) period_ns (clk_get_rate (clks s c) s) = Inr (rate, ticks)" and
    "config_duty (ucast ticks) duty_ns period_ns = Inr duty" and
    s': "s' = config_program hw c duty (ucast ticks) (clk_set_rate (clks s c) rate s)"
    by (rule config_Inr)
  have ter: "regs s' TCU_REG_TER = regs s TCU_REG_TER"
    by (simp add: s' config_program_TER)
  show ?thesis
  proof (cases "regs s TCU_REG_TER AND BIT c \<noteq> 0")
    case True
    then have "regs s' (TCU_REG_TCSRc c) AND TCU_TCSR_PWM_EN hw = TCU_TCSR_PWM_EN hw"
      by (simp add: s' config_program_TCSR_enabled)
    with True ter Inr show ?thesis
      by (simp add: s' config_program_calls)
  next
    case False
    with ter Inr show ?thesis
      by (simp add: s' config_program_calls config_program_regs config_program_frame)
  qed
qed

theorem config_keeps_enabled_state_witness:
  "\<exists>s'. jz4740_pwm_config sample_bits (\<lambda>clk r. r) 0 500000 1000000 (sample_chip 200000000 1) = Inr s' \<and>
        regs s' TCU_REG_TER = 1 \<and>
        regs s' (TCU_REG_TCSRc 0) AND BIT 7 = BIT 7 \<and>
        (\<exists>before. calls s' = before @
           [Regmap_update_bits (TCU_REG_TCSRc 0) (BIT 7) (BIT 7), Regmap_write TCU_REG_TESR (BIT 0)])"
proof -
  from sample_config_runs [of 1] obtain s'
    where c: "jz4740_pwm_config sample_bits (\<lambda>clk r. r) 0 500000 1000000 (sample_chip 200000000 1) = Inr s'"
    by blast
  have ter: "regs (sample_chip 200000000 1) TCU_REG_TER = 1" "(1 :: u32) AND BIT 0 \<noteq> 0"
    "TCU_TCSR_PWM_EN sample_bits = BIT 7"
    by (simp_all add: sample_chip_def BIT_def sample_bits_def)
  from config_keeps_enabled_state [where hw = sample_bits and crr = "\<lambda>clk r. r" and c = 0
      and duty_ns = 500000 and period_ns = 1000000 and s = "sample_chip 200000000 1"] c
  show ?thesis
    by (simp add: ter)
qed

text \<open>
  Claim C6. The calls of a successful \<open>jz4740_pwm_config\<close>, in order: \<open>clk_set_rate\<close>,
  the read of the running-status register, the two calls of \<open>jz4740_pwm_disable\<close> when
  the channel runs, then the abrupt-shutdown bits of the control register, the counter
  set to zero, the duty register, the period register, and last the two calls of
  \<open>jz4740_pwm_enable\<close> when the channel ran. The duty register is written before
  the period register. Afterwards the abrupt-shutdown bits of the control register
  are set, the counter register is zero, the period register holds the tick count the
  rate search accepted and the duty register holds the duty value computed from it.
\<close>

theorem config_write_order:
  assumes "jz4740_pwm_config hw crr c duty_ns period_ns s = Inr s'"
  shows "calls s' =
           calls s @
           [Clk_set_rate (clks s c) (clk_rate s' (clks s c)), Regmap_read TCU_REG_TER] @
           (if regs s TCU_REG_TER AND BIT c \<noteq> 0
            then [Regmap_update_bits (TCU_REG_TCSRc c) (TCU_TCSR_PWM_EN hw) 0,
                  Regmap_write TCU_REG_TECR (BIT c)]
            else []) @
           [Regmap_update_bits (TCU_REG_TCSRc c) (TCU_TCSR_PWM_SD hw) (TCU_TCSR_PWM_SD hw),
            Regmap_write (TCU_REG_TCNTc c) 0,
            Regmap_write (TCU_REG_TDHRc c) (regs s' (TCU_REG_TDHRc c)),
            Regmap_write (TCU_REG_TDFRc c) (regs s' (TCU_REG_TDFRc c))] @
           (if regs s TCU_REG_TER AND BIT c \<noteq> 0
            then [Regmap_update_bits (TCU_REG_TCSRc c) (TCU_TCSR_PWM_EN hw) (TCU_TCSR_PWM_EN hw),
                  Regmap_write TCU_REG_TESR (BIT c)]
            else []) \<and>
         regs s' (TCU_REG_TCSRc c) AND TCU_TCSR_PWM_SD hw = TCU_TCSR_PWM_SD hw \<and>
         regs s' (TCU_REG_TCNTc c) = 0 \<and>
         (\<exists>rate ticks.
            rate_search (crr (clks s c)) period_ns (clk_get_rate (clks s c) s) = Inr (rate, ticks) \<and>
            regs s' (TCU_REG_TDFRc c) = ucast ticks \<and>
            config_duty (ucast ticks) duty_ns period_ns = Inr (regs s' (TCU_REG_TDHRc c)))"
proof -
  from assms obtain rate and ticks :: u64 and duty where
    r: "rate_search (crr (clks s c)) period_ns (clk_get_rate (clks s c) s) = Inr (rate, ticks)" and
    d: "config_duty (ucast ticks) duty_ns period_ns = Inr duty" and
    s': "s' = config_program hw c duty (ucast ticks) (clk_set_rate (clks s c) rate s)"
    by (rule config_Inr)
  have log: "calls s' =
           calls s @
           [Clk_set_rate (clks s c) (clk_rate s' (clks s c)), Regmap_read TCU_REG_TER] @
           (if regs s TCU_REG_TER AND BIT c \<noteq> 0
            then [Regmap_update_bits (TCU_REG_TCSRc c) (TCU_TCSR_PWM_EN hw) 0,
                  Regmap_write TCU_REG_TECR (BIT c)]
            else []) @
           [Regmap_update_bits (TCU_REG_TCSRc c) (TCU_TCSR_PWM_SD hw) (TCU_TCSR_PWM_SD hw),
            Regmap_write (TCU_REG_TCNTc c) 0,
            Regmap_write (TCU_REG_TDHRc c) (regs s' (TCU_REG_TDHRc c)),
            Regmap_write (TCU_REG_TDFRc c) (regs s' (TCU_REG_TDFRc c))] @
           (if regs s TCU_REG_TER AND BIT c \<noteq> 0
            then [Regmap_update_bits (TCU_REG_TCSRc c) (TCU_TCSR_PWM_EN hw) (TCU_TCSR_PWM_EN hw),
                  Regmap_write TCU_REG_TESR (BIT c)]
            else [])"
    by (simp add: s' config_program_calls config_program_regs config_program_frame)
  have sd: "regs s' (TCU_REG_TCSRc c) AND TCU_TCSR_PWM_SD hw = TCU_TCSR_PWM_SD hw"
    by (simp only: s' config_program_TCSR_SD)
  have cnt: "regs s' (TCU_REG_TCNTc c) = 0"
    by (simp add: s' config_program_regs)
  have vals: "\<exists>rate ticks.
            rate_search (crr (clks s c)) period_ns (clk_get_rate (clks s c) s) = Inr (rate, ticks) \<and>
            regs s' (TCU_REG_TDFRc c) = ucast ticks \<and>
            config_duty (ucast ticks) duty_ns period_ns = Inr (regs s' (TCU_REG_TDHRc c))"
    using r d by (simp add: s' config_program_regs)
  from log sd cnt vals show ?thesis by blast
qed

theorem config_write_order_witness:
  "\<exists>s'. jz4740_pwm_config sample_bits (\<lambda>clk r. r) 0 500000 1000000 (sample_chip 200000000 1) = Inr s' \<and>
        calls s' =
          [Clk_set_rate 0x80001000 50000000, Regmap_read TCU_REG_TER,
           Regmap_update_bits (TCU_REG_TCSRc 0) (BIT 7) 0, Regmap_write TCU_REG_TECR (BIT 0),
           Regmap_update_bits (TCU_REG_TCSRc 0) (BIT 9) (BIT 9),
           Regmap_write (TCU_REG_TCNTc 0) 0,
           Regmap_write (TCU_REG_TDHRc 0) 25000,
           Regmap_write (TCU_REG_TDFRc 0) 50000,
           Regmap_update_bits (TCU_REG_TCSRc 0) (BIT 7) (BIT 7), Regmap_write TCU_REG_TESR (BIT 0)] \<and>
        regs s' (TCU_REG_TCSRc 0) AND BIT 9 = BIT 9 \<and>
        regs s' (TCU_REG_TCNTc 0) = 0"
proof -
  have c: "jz4740_pwm_config sample_bits (\<lambda>clk r. r) 0 500000 1000000 (sample_chip 200000000 1) =
      Inr (config_program sample_bits 0 25000 50000
            (clk_set_rate 0x80001000 50000000 (sample_chip 200000000 1)))"
    by (simp add: jz4740_pwm_config_def rate_search.simps do_div_def sample_chip_def
        clk_get_rate_def config_duty_def Let_def)
  have s: "regs (sample_chip 200000000 1) TCU_REG_TER = 1" "(1 :: u32) AND BIT 0 \<noteq> 0"
    "TCU_TCSR_PWM_EN sample_bits = BIT 7" "TCU_TCSR_PWM_SD sample_bits = BIT 9"
    "clks (sample_chip 200000000 1) 0 = 0x80001000" "calls (sample_chip 200000000 1) = []"
    by (simp_all add: sample_chip_def BIT_def sample_bits_def)
  from config_write_order [OF c] show ?thesis
    by (simp add: c s config_program_regs config_program_frame)
qed

text \<open>
  Claim C7. \<open>jz4740_pwm_enable\<close> makes two calls: first it sets the output-enable
  bits of the channel's control register, then it writes the channel's bit to the
  counter-start register; it returns 0. \<open>jz4740_pwm_disable\<close> makes two calls: first it
  clears the output-enable bits, then it writes the channel's bit to the counter-stop
  register. Afterwards the output-enable bits are set, respectively clear, and the
  channel's bit of the running-status register is set, respectively clear.
\<close>

theorem enable_disable_order:
  "fst (jz4740_pwm_enable hw c s) = 0 \<and>
   calls (snd (jz4740_pwm_enable hw c s)) =
     calls s @ [Regmap_update_bits (TCU_REG_TCSRc c) (TCU_TCSR_PWM_EN hw) (TCU_TCSR_PWM_EN hw),
                Regmap_write TCU_REG_TESR (BIT c)] \<and>
   regs (snd (jz4740_pwm_enable hw c s)) (TCU_REG_TCSRc c) AND TCU_TCSR_PWM_EN hw =
     TCU_TCSR_PWM_EN hw \<and>
   regs (snd (jz4740_pwm_enable hw c s)) TCU_REG_TER = regs s TCU_REG_TER OR BIT c \<and>
   calls (jz4740_pwm_disable hw c s) =
     calls s @ [Regmap_update_bits (TCU_REG_TCSRc c) (TCU_TCSR_PWM_EN hw) 0,
                Regmap_write TCU_REG_TECR (BIT c)] \<and>
   regs (jz4740_pwm_disable hw c s) (TCU_REG_TCSRc c) AND TCU_TCSR_PWM_EN hw = 0 \<and>
   regs (jz4740_pwm_disable hw c s) TCU_REG_TER = regs s TCU_REG_TER AND NOT (BIT c)"
proof -
  have en: "jz4740_pwm_enable hw c s =
      (0, regmap_write TCU_REG_TESR (BIT c)
            (regmap_update_bits (TCU_REG_TCSRc c) (TCU_TCSR_PWM_EN hw) (TCU_TCSR_PWM_EN hw) s))"
    by (simp add: jz4740_pwm_enable_def Let_def)
  have dis: "jz4740_pwm_disable hw c s =
      regmap_write TCU_REG_TECR (BIT c)
        (regmap_update_bits (TCU_REG_TCSRc c) (TCU_TCSR_PWM_EN hw) 0 s)"
    by (simp add: jz4740_pwm_disable_def Let_def)
  show ?thesis
    unfolding en dis by (simp add: mask_bits_set mask_bits_clear)
qed

subsection \<open>The request of a channel\<close>

text \<open>
  Claim C5. When \<open>jz4740_pwm_request\<close> returns an error, the leased channels, the
  clock handles held, the clocks that are on and the array \<open>clks\<close> are what they were
  before the call. When the channel was already leased, the only call is the refused
  request. When \<open>clk_get\<close> fails, the lease is released after it. When
  \<open>clk_prepare_enable\<close> fails, \<open>clk_put\<close> releases the handle and the lease is released
  after that.
\<close>

theorem request_error_unwinds:
  assumes "fst (jz4740_pwm_request got en c s) \<noteq> 0"
  shows "leased (snd (jz4740_pwm_request got en c s)) = leased s \<and>
         clk_refs (snd (jz4740_pwm_request got en c s)) = clk_refs s \<and>
         clk_on (snd (jz4740_pwm_request got en c s)) = clk_on s \<and>
         clks (snd (jz4740_pwm_request got en c s)) = clks s \<and>
         calls (snd (jz4740_pwm_request got en c s)) =
           calls s @
           (if c \<in> leased s then [Ingenic_tcu_request_channel c]
            else if IS_ERR got then
              [Ingenic_tcu_request_channel c,
               Clk_get (take 15 (''timer'' @ dec c)),
               Ingenic_tcu_release_channel c]
            else
              [Ingenic_tcu_request_channel c,
               Clk_get (take 15 (''timer'' @ dec c)),
               Clk_prepare_enable got,
               Clk_put got,
               Ingenic_tcu_release_channel c])"
  using assms
  by (auto simp: jz4740_pwm_request_def ingenic_tcu_request_channel_def clk_get_def
        clk_prepare_enable_def clk_put_def ingenic_tcu_release_channel_def PTR_ERR_def Let_def
        split: if_splits)

theorem request_error_unwinds_witness:
  "fst (jz4740_pwm_request 0x80001003 (- 5) 3 (sample_chip 48000000 0)) \<noteq> 0 \<and>
   leased (snd (jz4740_pwm_request 0x80001003 (- 5) 3 (sample_chip 48000000 0))) = {} \<and>
   clk_refs (snd (jz4740_pwm_request 0x80001003 (- 5) 3 (sample_chip 48000000 0))) = {#} \<and>
   calls (snd (jz4740_pwm_request 0x80001003 (- 5) 3 (sample_chip 48000000 0))) =
     [Ingenic_tcu_request_channel 3, Clk_get ''timer3'', Clk_prepare_enable 0x80001003,
      Clk_put 0x80001003, Ingenic_tcu_release_channel 3]"
proof -
  have err: "fst (jz4740_pwm_request 0x80001003 (- 5) 3 (sample_chip 48000000 0)) \<noteq> 0"
    by (simp add: jz4740_pwm_request_def ingenic_tcu_request_channel_def clk_get_def
        clk_prepare_enable_def IS_ERR_def sample_chip_def Let_def called_def)
  have s: "leased (sample_chip 48000000 0) = {}" "clk_refs (sample_chip 48000000 0) = {#}"
    "calls (sample_chip 48000000 0) = []" "\<not> IS_ERR 0x80001003"
    by (simp_all add: sample_chip_def IS_ERR_def)
  from request_error_unwinds [OF err] err show ?thesis
    by (simp add: s dec_3)
qed

subsection \<open>The polarity\<close>

text \<open>
  Claim C8. \<open>jz4740_pwm_set_polarity\<close> returns 0 after one call, an update of the
  initial-level-high mask in the channel's control register. Afterwards a bit of that
  register that belongs to the mask is set for \<open>PWM_POLARITY_INVERSED\<close> and clear for
  \<open>PWM_POLARITY_NORMAL\<close>; every other bit of that register and every bit of every
  other register is what it was.
\<close>

theorem set_polarity_bits:
  "fst (jz4740_pwm_set_polarity hw c polarity s) = 0 \<and>
   calls (snd (jz4740_pwm_set_polarity hw c polarity s)) =
     calls s @ [Regmap_update_bits (TCU_REG_TCSRc c) (TCU_TCSR_PWM_INITL_HIGH hw)
                 (case polarity of PWM_POLARITY_NORMAL \<Rightarrow> 0
                  | PWM_POLARITY_INVERSED \<Rightarrow> TCU_TCSR_PWM_INITL_HIGH hw)] \<and>
   bit (regs (snd (jz4740_pwm_set_polarity hw c polarity s)) r) n =
     (if r = TCU_REG_TCSRc c \<and> bit (TCU_TCSR_PWM_INITL_HIGH hw) n
      then polarity = PWM_POLARITY_INVERSED
      else bit (regs s r) n)"
proof (cases polarity)
  case PWM_POLARITY_NORMAL
  then show ?thesis
    by (auto simp: jz4740_pwm_set_polarity_def bit_simps dest: bit_imp_le_length)
next
  case PWM_POLARITY_INVERSED
  then show ?thesis
    by (auto simp: jz4740_pwm_set_polarity_def bit_simps dest: bit_imp_le_length)
qed

subsection \<open>Divisions\<close>

text \<open>
  Claim C10. \<open>jz4740_pwm_config\<close> divides by zero exactly when \<open>period_ns\<close> is zero:
  the division by the constant 1000000000 never does, and the division by \<open>period_ns\<close>
  does exactly for \<open>period_ns = 0\<close>, which the code does not check. With
  \<open>period_ns = 0\<close> every call reaches that division.
\<close>

theorem config_division_by_zero:
  "(\<exists>s'. jz4740_pwm_config hw crr c duty_ns period_ns s = Inl (Division_by_zero, s')) =
     (period_ns = 0) \<and>
   do_div n 1000000000 \<noteq> None \<and>
   (do_div n period_ns = None) = (period_ns = 0)"
proof -
  have a: "\<exists>s'. jz4740_pwm_config hw crr c duty_ns 0 s = Inl (Division_by_zero, s')"
    by (simp add: jz4740_pwm_config_def rate_search.simps do_div_def config_duty_def Let_def)
  have b: "jz4740_pwm_config hw crr c duty_ns period_ns s \<noteq> Inl (Division_by_zero, s')"
    if "period_ns \<noteq> 0" for s'
    using that rate_search_no_div0 [of "crr (clks s c)" period_ns "clk_get_rate (clks s c) s"]
    by (auto simp: jz4740_pwm_config_def Let_def config_duty_def do_div_def split: sum.splits)
  from a b show ?thesis by (auto simp: do_div_def)
qed

end
